theory Spec2Isabelle
  imports Main "HOL-Library.Word" "HOL-Library.Multiset"
begin

section \<open>The ledger package of haya: data model\<close>

text \<open>
  The package \<open>ledger\<close> (the most recent snapshot of \<open>ledger.go\<close>, the one whose
  \<open>Ledger\<close> methods take a \<open>context.Context\<close>) is embedded as follows. The bodies
  of the methods of \<open>Transaction\<close> are the same in every snapshot of the package.
  The struct \<open>Account\<close> is used by no function of the package and is left out.
  \<^item> Go's \<open>int\<close> is a machine integer. It is modelled at its width on the 64-bit
    platforms, as a \<open>64 word\<close>: \<open>+\<close> wraps around, \<open>sint\<close> reads the two's
    complement value, and the comparisons \<open>> 0\<close> and \<open>< 0\<close> of the source are the
    signed comparisons \<open>0 <s x\<close> and \<open>x <s 0\<close>.
  \<^item> \<open>uuid.UUID\<close> is an array of 16 bytes, a \<open>128 word\<close>; its zero value is \<open>0\<close>.
  \<^item> \<open>time.Time\<close> is an instant, counted in nanoseconds from the zero instant of
    \<open>time.Time\<close>; its zero value is \<open>0\<close>.
  \<^item> An \<open>error\<close> is identified by its message; the \<open>nil\<close> error is \<open>None\<close>.
  \<^item> A method with a pointer receiver that only reads the receiver is a function
    of the transaction; one that assigns to a field returns the updated transaction.
    The receiver is assumed not to be \<open>nil\<close>.
\<close>

type_synonym gint = "64 word"
type_synonym UUID = "128 word"
type_synonym Time = int
type_synonym AccountType = string
type_synonym TransactionType = string

datatype error = errors_New string

definition AccountTypeAsset :: AccountType where "AccountTypeAsset = ''Asset''"
definition AccountTypeExpense :: AccountType where "AccountTypeExpense = ''Expense''"
definition AccountTypeLiability :: AccountType where "AccountTypeLiability = ''Liability''"
definition AccountTypeEquity :: AccountType where "AccountTypeEquity = ''Equity''"
definition AccountTypeRevenue :: AccountType where "AccountTypeRevenue = ''Revenue''"

definition TransactionTypeRegular :: TransactionType where
  "TransactionTypeRegular = ''Regular''"
definition TransactionTypeClosing :: TransactionType where
  "TransactionTypeClosing = ''Closing''"

record Entry =
  Account :: UUID
  Amount :: gint

record AccountBalance =
  AccountID :: UUID
  AccountType :: AccountType
  Balance :: gint
  BalanceTimestamp :: Time

record Transaction =
  Entries :: "Entry list"
  Timestamp :: Time
  TransactionType :: TransactionType

text \<open>
  The field \<open>Timestamp\<close> of \<open>AccountBalance\<close> is named \<open>BalanceTimestamp\<close> here,
  since the field of the same name of \<open>Transaction\<close> is the one the operations use.
  \<open>AccountBalance{}\<close> is the value whose fields are all zero.
\<close>

definition zero_AccountBalance :: AccountBalance where
  "zero_AccountBalance =
     \<lparr>AccountID = 0, AccountType = [], Balance = 0, BalanceTimestamp = 0\<rparr>"

section \<open>Transaction: construction and mutation\<close>

definition newTransaction :: "Time \<Rightarrow> TransactionType \<Rightarrow> Transaction" where
  "newTransaction timestamp t_type =
     \<lparr>Entries = [], Timestamp = timestamp, TransactionType = t_type\<rparr>"

definition NewRegularTransaction :: "Time \<Rightarrow> Transaction" where
  "NewRegularTransaction timestamp = newTransaction timestamp TransactionTypeRegular"

definition NewTransaction :: "Time \<Rightarrow> Transaction" where
  "NewTransaction timestamp = NewRegularTransaction timestamp"

definition NewClosingTransaction :: "Time \<Rightarrow> Transaction" where
  "NewClosingTransaction timestamp = newTransaction timestamp TransactionTypeClosing"

text \<open>\<open>t.Entries = append(t.Entries, e)\<close> and \<open>t.Entries = append(t.Entries, entries...)\<close>.\<close>

definition AddEntry :: "Transaction \<Rightarrow> Entry \<Rightarrow> Transaction" where
  "AddEntry t e = t\<lparr>Entries := Entries t @ [e]\<rparr>"

definition AddEntries :: "Transaction \<Rightarrow> Entry list \<Rightarrow> Transaction" where
  "AddEntries t entries = t\<lparr>Entries := Entries t @ entries\<rparr>"

section \<open>Transaction: the balance check and the totals\<close>

text \<open>
  The three \<open>for _, entry := range t.Entries\<close> loops, each with its accumulator as
  the second argument (\<open>s\<close> for the variable \<open>sum\<close> of the source and
  \<open>tot\<close> for \<open>total\<close>); the accumulator starts at the zero value of \<open>int\<close>.
\<close>

fun sum_loop :: "Entry list \<Rightarrow> gint \<Rightarrow> gint" where
  "sum_loop [] s = s"
| "sum_loop (entry # rest) s = sum_loop rest (s + Amount entry)"

fun increases_loop :: "Entry list \<Rightarrow> gint \<Rightarrow> gint" where
  "increases_loop [] tot = tot"
| "increases_loop (entry # rest) tot =
     increases_loop rest (if 0 <s Amount entry then tot + Amount entry else tot)"

fun decreases_loop :: "Entry list \<Rightarrow> gint \<Rightarrow> gint" where
  "decreases_loop [] tot = tot"
| "decreases_loop (entry # rest) tot =
     decreases_loop rest (if Amount entry <s 0 then tot + Amount entry else tot)"

definition IsBalanced :: "Transaction \<Rightarrow> bool \<times> error option" where
  "IsBalanced t =
     (if length (Entries t) = 0 then
        (True, Some (errors_New ''transaction has no entries''))
      else if length (Entries t) = 1 then
        (False, Some (errors_New ''transaction has only one entry''))
      else if sum_loop (Entries t) 0 \<noteq> 0 then
        (False, Some (errors_New ''transaction is unbalanced''))
      else (True, None))"

definition TotalIncreases :: "Transaction \<Rightarrow> gint" where
  "TotalIncreases t = increases_loop (Entries t) 0"

definition TotalDecreases :: "Transaction \<Rightarrow> gint" where
  "TotalDecreases t = decreases_loop (Entries t) 0"

text \<open>
  \<open>IsBalanced\<close> as a step on the transaction it is called on: the body of the method
  assigns to no field of the receiver, so the transaction after the call is the one
  before it. \<open>IsBalanced_calls n\<close> is \<open>n\<close> calls in a row, with their results.
\<close>

definition IsBalanced_call :: "Transaction \<Rightarrow> (bool \<times> error option) \<times> Transaction" where
  "IsBalanced_call t = (IsBalanced t, t)"

fun IsBalanced_calls ::
  "nat \<Rightarrow> Transaction \<Rightarrow> (bool \<times> error option) list \<times> Transaction" where
  "IsBalanced_calls 0 t = ([], t)"
| "IsBalanced_calls (Suc n) t =
     (case IsBalanced_call t of
        (r, t') \<Rightarrow> (case IsBalanced_calls n t' of (rs, t'') \<Rightarrow> (r # rs, t'')))"

text \<open>
  The exact sums, over the integers, of the amounts read as signed numbers: of all
  entries, of the strictly positive ones and of the strictly negative ones. They are
  what the claims are measured against; the code computes none of them.
\<close>

definition exact_sum :: "Entry list \<Rightarrow> int" where
  "exact_sum es = sum_list (map (\<lambda>e. sint (Amount e)) es)"

definition exact_increases :: "Entry list \<Rightarrow> int" where
  "exact_increases es =
     sum_list (map (\<lambda>e. sint (Amount e)) (filter (\<lambda>e. 0 < sint (Amount e)) es))"

definition exact_decreases :: "Entry list \<Rightarrow> int" where
  "exact_decreases es =
     sum_list (map (\<lambda>e. sint (Amount e)) (filter (\<lambda>e. sint (Amount e) < 0) es))"

section \<open>Ledger\<close>

text \<open>
  \<open>Storage\<close> is an interface with the one method \<open>SaveTransaction\<close>. An
  implementation is a function on its own state \<open>'s\<close> that returns the error it
  reports (\<open>None\<close> for \<open>nil\<close>) and its new state. The world a \<open>Ledger\<close> runs in
  holds that state and the list of the calls of \<open>SaveTransaction\<close> made so far, each
  with its arguments, so that whether the method was invoked can be observed.
  The storage of a ledger is assumed not to be \<open>nil\<close>.
\<close>

record ('ctx, 's) Storage =
  SaveTransaction :: "'ctx \<Rightarrow> Transaction \<Rightarrow> 's \<Rightarrow> error option \<times> 's"

record ('ctx, 's) Ledger =
  storage :: "('ctx, 's) Storage"

record ('ctx, 's) World =
  saves :: "('ctx \<times> Transaction) list"
  store :: 's

definition NewLedger :: "('ctx, 's) Storage \<Rightarrow> ('ctx, 's) Ledger" where
  "NewLedger st = \<lparr>storage = st\<rparr>"

definition storage_SaveTransaction ::
  "('ctx, 's) Storage \<Rightarrow> 'ctx \<Rightarrow> Transaction \<Rightarrow> ('ctx, 's) World
     \<Rightarrow> error option \<times> ('ctx, 's) World" where
  "storage_SaveTransaction st ctx t w =
     (case SaveTransaction st ctx t (store w) of
        (err, s') \<Rightarrow> (err, \<lparr>saves = saves w @ [(ctx, t)], store = s'\<rparr>))"

definition AddTransaction ::
  "('ctx, 's) Ledger \<Rightarrow> 'ctx \<Rightarrow> Transaction \<Rightarrow> ('ctx, 's) World
     \<Rightarrow> error option \<times> ('ctx, 's) World" where
  "AddTransaction l ctx t w =
     (case IsBalanced t of
        (balanced, err) \<Rightarrow>
          if \<not> balanced then (err, w)
          else storage_SaveTransaction (storage l) ctx t w)"

text \<open>
  \<open>getAccountBalance\<close> discards its four arguments and returns \<open>AccountBalance{}, nil\<close>.
\<close>

definition getAccountBalance ::
  "('ctx, 's) Ledger \<Rightarrow> 'ctx \<Rightarrow> UUID \<Rightarrow> Time \<Rightarrow> bool \<Rightarrow> AccountBalance \<times> error option" where
  "getAccountBalance l ctx accountID t closed = (zero_AccountBalance, None)"

text \<open>
  The three exported queries, first with the internal operation they call left open
  (the argument \<open>g\<close>), then as the source has them, calling \<open>getAccountBalance\<close>.
  \<open>time.Now()\<close> reads the clock: the reading is the argument \<open>now\<close>.
\<close>

definition GetCurrentAccountBalance_via ::
  "(('ctx, 's) Ledger \<Rightarrow> 'ctx \<Rightarrow> UUID \<Rightarrow> Time \<Rightarrow> bool \<Rightarrow> 'r)
     \<Rightarrow> Time \<Rightarrow> ('ctx, 's) Ledger \<Rightarrow> 'ctx \<Rightarrow> UUID \<Rightarrow> bool \<Rightarrow> 'r" where
  "GetCurrentAccountBalance_via g now l ctx accountID closed =
     (let t = now in g l ctx accountID t closed)"

definition GetAccountBalanceAt_via ::
  "(('ctx, 's) Ledger \<Rightarrow> 'ctx \<Rightarrow> UUID \<Rightarrow> Time \<Rightarrow> bool \<Rightarrow> 'r)
     \<Rightarrow> ('ctx, 's) Ledger \<Rightarrow> 'ctx \<Rightarrow> UUID \<Rightarrow> Time \<Rightarrow> 'r" where
  "GetAccountBalanceAt_via g l ctx accountID t = g l ctx accountID t False"

definition GetAccountBalanceClosedAt_via ::
  "(('ctx, 's) Ledger \<Rightarrow> 'ctx \<Rightarrow> UUID \<Rightarrow> Time \<Rightarrow> bool \<Rightarrow> 'r)
     \<Rightarrow> ('ctx, 's) Ledger \<Rightarrow> 'ctx \<Rightarrow> UUID \<Rightarrow> Time \<Rightarrow> 'r" where
  "GetAccountBalanceClosedAt_via g l ctx accountID t = g l ctx accountID t True"

definition GetCurrentAccountBalance ::
  "Time \<Rightarrow> ('ctx, 's) Ledger \<Rightarrow> 'ctx \<Rightarrow> UUID \<Rightarrow> bool \<Rightarrow> AccountBalance \<times> error option" where
  "GetCurrentAccountBalance = GetCurrentAccountBalance_via getAccountBalance"

definition GetAccountBalanceAt ::
  "('ctx, 's) Ledger \<Rightarrow> 'ctx \<Rightarrow> UUID \<Rightarrow> Time \<Rightarrow> AccountBalance \<times> error option" where
  "GetAccountBalanceAt = GetAccountBalanceAt_via getAccountBalance"

definition GetAccountBalanceClosedAt ::
  "('ctx, 's) Ledger \<Rightarrow> 'ctx \<Rightarrow> UUID \<Rightarrow> Time \<Rightarrow> AccountBalance \<times> error option" where
  "GetAccountBalanceClosedAt = GetAccountBalanceClosedAt_via getAccountBalance"

section \<open>Example inputs\<close>

text \<open>
  The entries of the package's test, two storage implementations standing in for a
  real one (the first keeps every transaction it is given and reports no error, the
  second keeps nothing and reports an error), and three transactions whose amounts
  reach the bounds of \<open>int\<close>.
\<close>

definition min_int_pair :: Transaction where
  "min_int_pair =
     \<lparr>Entries = [\<lparr>Account = 1, Amount = - 9223372036854775808\<rparr>,
                 \<lparr>Account = 2, Amount = - 9223372036854775808\<rparr>],
      Timestamp = 0, TransactionType = ''Regular''\<rparr>"

definition max_int_and_one :: Transaction where
  "max_int_and_one =
     \<lparr>Entries = [\<lparr>Account = 1, Amount = 9223372036854775807\<rparr>,
                 \<lparr>Account = 2, Amount = 1\<rparr>],
      Timestamp = 0, TransactionType = ''Regular''\<rparr>"

definition min_int_and_minus_one :: Transaction where
  "min_int_and_minus_one =
     \<lparr>Entries = [\<lparr>Account = 1, Amount = - 9223372036854775808\<rparr>,
                 \<lparr>Account = 2, Amount = - 1\<rparr>],
      Timestamp = 0, TransactionType = ''Regular''\<rparr>"

definition debit :: Entry where "debit = \<lparr>Account = 1, Amount = - 100\<rparr>"
definition credit :: Entry where "credit = \<lparr>Account = 2, Amount = 100\<rparr>"
definition plus_entry :: Entry where "plus_entry = \<lparr>Account = 3, Amount = 100\<rparr>"

definition memory_storage :: "(unit, Transaction list) Storage" where
  "memory_storage = \<lparr>SaveTransaction = (\<lambda>ctx t s. (None, s @ [t]))\<rparr>"

definition failing_storage :: "(unit, Transaction list) Storage" where
  "failing_storage =
     \<lparr>SaveTransaction = (\<lambda>ctx t s. (Some (errors_New ''storage failure''), s))\<rparr>"

definition empty_world :: "(unit, Transaction list) World" where
  "empty_world = \<lparr>saves = [], store = []\<rparr>"

section \<open>The loops as sums\<close>

text \<open>
  Each loop adds to its accumulator the amounts it selects; in \<open>64 word\<close> that sum is
  the exact sum of the signed amounts, reduced modulo \<open>2 ^ 64\<close>.
\<close>

lemma sum_loop_eq: "sum_loop es s = s + sum_list (map Amount es)"
  by (induction es arbitrary: s) (simp_all add: add.assoc)

lemma increases_loop_eq:
  "increases_loop es tot = tot + sum_list (map Amount (filter (\<lambda>e. 0 <s Amount e) es))"
  by (induction es arbitrary: tot) (simp_all add: add.assoc)

lemma decreases_loop_eq:
  "decreases_loop es tot = tot + sum_list (map Amount (filter (\<lambda>e. Amount e <s 0) es))"
  by (induction es arbitrary: tot) (simp_all add: add.assoc)

lemma word_sum_list_sint:
  "sum_list (map Amount es) = (word_of_int (sum_list (map (\<lambda>e. sint (Amount e)) es)) :: gint)"
  by (induction es) simp_all

lemma sum_loop_exact: "sum_loop es 0 = word_of_int (exact_sum es)"
  by (simp add: sum_loop_eq word_sum_list_sint exact_sum_def)

lemma increases_exact: "increases_loop es 0 = word_of_int (exact_increases es)"
  by (simp add: increases_loop_eq word_sum_list_sint exact_increases_def word_sless_alt)

lemma decreases_exact: "decreases_loop es 0 = word_of_int (exact_decreases es)"
  by (simp add: decreases_loop_eq word_sum_list_sint exact_decreases_def word_sless_alt)


lemma gint_zero_iff: "(word_of_int k :: gint) = 0 \<longleftrightarrow> 2 ^ 64 dvd k"
  by (simp add: word_of_int_eq_0_iff take_bit_eq_mod mod_eq_0_iff_dvd)

lemma exact_increases_nonneg: "0 \<le> exact_increases es"
  by (induction es) (simp_all add: exact_increases_def)

lemma exact_decreases_nonpos: "exact_decreases es \<le> 0"
  by (induction es) (simp_all add: exact_decreases_def)

lemma sint_gint_of_int: "- (2 ^ 63) \<le> k \<Longrightarrow> k < 2 ^ 63 \<Longrightarrow> sint (word_of_int k :: gint) = k"
  by (simp add: sint_sbintrunc' signed_take_bit_int_eq_self)

lemma small_multiple: "2 ^ 64 dvd (k::int) \<Longrightarrow> \<bar>k\<bar> < 2 ^ 64 \<Longrightarrow> k = 0"
  using zdvd_not_zless [of "\<bar>k\<bar>" "2 ^ 64"] by (cases "k = 0") auto

lemma sum_loop_zero_iff: "sum_loop es 0 = 0 \<longleftrightarrow> 2 ^ 64 dvd exact_sum es"
  by (simp only: sum_loop_exact gint_zero_iff)

lemma IsBalanced_many:
  "2 \<le> length (Entries t) \<Longrightarrow>
   IsBalanced t = (if 2 ^ 64 dvd exact_sum (Entries t) then (True, None)
                   else (False, Some (errors_New ''transaction is unbalanced'')))"
  using sum_loop_zero_iff [of "Entries t"] by (auto simp: IsBalanced_def)

lemmas example_defs =
  NewTransaction_def NewRegularTransaction_def newTransaction_def AddEntry_def
  AddEntries_def debit_def credit_def plus_entry_def

section \<open>Appending entries\<close>

lemma foldl_AddEntry:
  "foldl AddEntry t es = t\<lparr>Entries := Entries t @ es\<rparr>"
  by (induction es arbitrary: t) (simp_all add: AddEntry_def)

text \<open>
  C10. \<open>AddEntries\<close> with a sequence of entries is \<open>AddEntry\<close> called once for each
  entry, in that order. Both are total (they return a transaction for every input),
  both leave the time stamp and the transaction type as they were, and both end with
  the entry sequence that has the earlier entries first, unchanged, and the new
  entries after them in the order given.
\<close>

theorem AddEntries_is_repeated_AddEntry:
  "AddEntries t es = foldl AddEntry t es
   \<and> Entries (AddEntries t es) = Entries t @ es
   \<and> Entries (foldl AddEntry t es) = Entries t @ es
   \<and> Timestamp (AddEntries t es) = Timestamp t
   \<and> TransactionType (AddEntries t es) = TransactionType t
   \<and> Timestamp (AddEntry t e) = Timestamp t
   \<and> TransactionType (AddEntry t e) = TransactionType t
   \<and> Entries (AddEntry t e) = Entries t @ [e]"
  by (simp add: foldl_AddEntry AddEntries_def AddEntry_def)

section \<open>The balance check\<close>

text \<open>
  What the code computes. The first two rows of the policy table hold for every
  transaction, and so does the third: two or more entries whose amounts sum to 0 give
  \<open>true\<close> and no error. The fourth row, \<open>false\<close> and "transaction is unbalanced" for
  a non-zero sum, holds wherever the exact sum is below \<open>2 ^ 64\<close> in magnitude. The
  verdict follows the sum as the loop computes it in \<open>int\<close>, which is 0 exactly when
  the exact sum is a multiple of \<open>2 ^ 64\<close>: this is where the code leaves the table.
\<close>

lemma IsBalanced_policy:
  "(length (Entries t) = 0 \<longrightarrow>
      IsBalanced t = (True, Some (errors_New ''transaction has no entries'')))
   \<and> (length (Entries t) = 1 \<longrightarrow>
      IsBalanced t = (False, Some (errors_New ''transaction has only one entry'')))
   \<and> (2 \<le> length (Entries t) \<and> exact_sum (Entries t) = 0 \<longrightarrow>
      IsBalanced t = (True, None))
   \<and> (2 \<le> length (Entries t) \<and> exact_sum (Entries t) \<noteq> 0
        \<and> \<bar>exact_sum (Entries t)\<bar> < 2 ^ 64 \<longrightarrow>
      IsBalanced t = (False, Some (errors_New ''transaction is unbalanced'')))
   \<and> (2 \<le> length (Entries t) \<and> 2 ^ 64 dvd exact_sum (Entries t) \<longrightarrow>
      IsBalanced t = (True, None))
   \<and> (2 \<le> length (Entries t) \<and> \<not> 2 ^ 64 dvd exact_sum (Entries t) \<longrightarrow>
      IsBalanced t = (False, Some (errors_New ''transaction is unbalanced'')))"
proof -
  have zero: "length (Entries t) = 0 \<Longrightarrow>
      IsBalanced t = (True, Some (errors_New ''transaction has no entries''))"
    by (simp add: IsBalanced_def)
  have one: "length (Entries t) = 1 \<Longrightarrow>
      IsBalanced t = (False, Some (errors_New ''transaction has only one entry''))"
    by (simp add: IsBalanced_def)
  have wrap: "2 \<le> length (Entries t) \<Longrightarrow> 2 ^ 64 dvd exact_sum (Entries t) \<Longrightarrow>
      IsBalanced t = (True, None)"
    by (simp add: IsBalanced_many)
  have unbal: "2 \<le> length (Entries t) \<Longrightarrow> \<not> 2 ^ 64 dvd exact_sum (Entries t) \<Longrightarrow>
      IsBalanced t = (False, Some (errors_New ''transaction is unbalanced''))"
    by (simp add: IsBalanced_many)
  have small: "exact_sum (Entries t) \<noteq> 0 \<Longrightarrow> \<bar>exact_sum (Entries t)\<bar> < 2 ^ 64 \<Longrightarrow>
      \<not> 2 ^ 64 dvd exact_sum (Entries t)"
    using small_multiple [of "exact_sum (Entries t)"] by blast
  show ?thesis
    using zero one wrap unbal small by (metis dvd_0_right)
qed

text \<open>
  The four states the package's test goes through, and two transactions whose
  amounts are at the bounds of \<open>int\<close>.
\<close>

lemma IsBalanced_policy_examples:
  "IsBalanced (NewTransaction 0) = (True, Some (errors_New ''transaction has no entries''))
   \<and> IsBalanced (AddEntry (NewTransaction 0) debit)
       = (False, Some (errors_New ''transaction has only one entry''))
   \<and> IsBalanced (AddEntries (AddEntry (NewTransaction 0) debit) [credit]) = (True, None)
   \<and> IsBalanced (AddEntry (AddEntries (AddEntry (NewTransaction 0) debit) [credit]) plus_entry)
       = (False, Some (errors_New ''transaction is unbalanced''))
   \<and> IsBalanced min_int_pair = (True, None)
   \<and> IsBalanced max_int_and_one = (False, Some (errors_New ''transaction is unbalanced''))"
proof -
  let ?t0 = "NewTransaction 0"
  let ?t1 = "AddEntry ?t0 debit"
  let ?t2 = "AddEntries ?t1 [credit]"
  let ?t3 = "AddEntry ?t2 plus_entry"
  have h0: "length (Entries ?t0) = 0"
    by (simp add: example_defs)
  have h1: "length (Entries ?t1) = 1"
    by (simp add: example_defs)
  have h2: "2 \<le> length (Entries ?t2) \<and> exact_sum (Entries ?t2) = 0"
    by (simp add: example_defs exact_sum_def)
  have h3: "2 \<le> length (Entries ?t3) \<and> exact_sum (Entries ?t3) \<noteq> 0
            \<and> \<bar>exact_sum (Entries ?t3)\<bar> < 2 ^ 64"
    by (simp add: example_defs exact_sum_def)
  have h4: "2 \<le> length (Entries min_int_pair) \<and> 2 ^ 64 dvd exact_sum (Entries min_int_pair)"
    by (simp add: min_int_pair_def exact_sum_def)
  have h5: "2 \<le> length (Entries max_int_and_one)
            \<and> \<not> 2 ^ 64 dvd exact_sum (Entries max_int_and_one)"
    by (simp add: max_int_and_one_def exact_sum_def)
  note c0 = IsBalanced_policy [of ?t0, THEN conjunct1, THEN mp, OF h0]
  note c1 = IsBalanced_policy [of ?t1, THEN conjunct2, THEN conjunct1, THEN mp, OF h1]
  note c2 = IsBalanced_policy [of ?t2, THEN conjunct2, THEN conjunct2, THEN conjunct1,
      THEN mp, OF h2]
  note c3 = IsBalanced_policy [of ?t3, THEN conjunct2, THEN conjunct2, THEN conjunct2,
      THEN conjunct1, THEN mp, OF h3]
  note c4 = IsBalanced_policy [of min_int_pair, THEN conjunct2, THEN conjunct2,
      THEN conjunct2, THEN conjunct2, THEN conjunct1, THEN mp, OF h4]
  note c5 = IsBalanced_policy [of max_int_and_one, THEN conjunct2, THEN conjunct2,
      THEN conjunct2, THEN conjunct2, THEN conjunct2, THEN mp, OF h5]
  from c0 c1 c2 c3 c4 c5 show ?thesis
    by (intro conjI)
qed

text \<open>
  C1. The policy table asks of \<open>IsBalanced\<close>, for a transaction with two or more
  entries whose amounts sum to a non-zero value, the result \<open>false\<close> with the error
  "transaction is unbalanced"; the comments of the code say the same ("A transaction
  is balanced if the sum of all the amounts in the entries is 0", "if it is not 0,
  return false and an error"). The code does not do so when the sum overflows: the
  transaction with the two entries \<open>-9223372036854775808\<close> and
  \<open>-9223372036854775808\<close> has amounts that sum to \<open>-18446744073709551616\<close>, which
  is not 0, and \<open>IsBalanced\<close> returns \<open>true\<close> and no error, because the sum wraps
  around to 0 in \<open>int\<close>.
\<close>

theorem IsBalanced_overflow_failing_input:
  "2 \<le> length (Entries min_int_pair)
   \<and> exact_sum (Entries min_int_pair) = - 18446744073709551616
   \<and> exact_sum (Entries min_int_pair) \<noteq> 0
   \<and> IsBalanced min_int_pair = (True, None)
   \<and> IsBalanced min_int_pair \<noteq> (False, Some (errors_New ''transaction is unbalanced''))"
  by (simp add: min_int_pair_def exact_sum_def IsBalanced_def)

section \<open>The totals\<close>



text \<open>
  What the code computes. \<open>TotalIncreases\<close> adds up, in \<open>int\<close>, only the strictly
  positive entry amounts: the result is their exact sum reduced modulo \<open>2 ^ 64\<close>. It
  is that exact sum, and so at least 0, while the exact sum is at most \<open>2 ^ 63 - 1\<close>,
  and it is 0 for an entry sequence that is empty or has no positive amount.
  \<open>TotalDecreases\<close> does the same for the strictly negative amounts: it is their
  exact sum, and so at most 0 (no absolute value is taken), while that sum is at least
  \<open>- 2 ^ 63\<close>, and it is 0 when no amount is negative.
\<close>

lemma totals_in_range:
  "TotalIncreases t = word_of_int (exact_increases (Entries t))
   \<and> TotalDecreases t = word_of_int (exact_decreases (Entries t))
   \<and> (exact_increases (Entries t) < 2 ^ 63 \<longrightarrow>
        sint (TotalIncreases t) = exact_increases (Entries t) \<and> 0 \<le> sint (TotalIncreases t))
   \<and> (- (2 ^ 63) \<le> exact_decreases (Entries t) \<longrightarrow>
        sint (TotalDecreases t) = exact_decreases (Entries t) \<and> sint (TotalDecreases t) \<le> 0)
   \<and> ((\<forall>e \<in> set (Entries t). sint (Amount e) \<le> 0) \<longrightarrow> TotalIncreases t = 0)
   \<and> ((\<forall>e \<in> set (Entries t). 0 \<le> sint (Amount e)) \<longrightarrow> TotalDecreases t = 0)"
proof -
  let ?es = "Entries t"
  have i: "TotalIncreases t = word_of_int (exact_increases ?es)"
    by (simp add: TotalIncreases_def increases_exact)
  have d: "TotalDecreases t = word_of_int (exact_decreases ?es)"
    by (simp add: TotalDecreases_def decreases_exact)
  have si: "sint (TotalIncreases t) = exact_increases ?es \<and> 0 \<le> sint (TotalIncreases t)"
    if "exact_increases ?es < 2 ^ 63"
    using that exact_increases_nonneg [of ?es] by (simp add: i sint_gint_of_int)
  have sd: "sint (TotalDecreases t) = exact_decreases ?es \<and> sint (TotalDecreases t) \<le> 0"
    if "- (2 ^ 63) \<le> exact_decreases ?es"
    using that exact_decreases_nonpos [of ?es] by (simp add: d sint_gint_of_int)
  have none_pos: "filter (\<lambda>e. 0 < sint (Amount e)) ?es = []"
    if "\<forall>e \<in> set ?es. sint (Amount e) \<le> 0"
    using that by (auto simp: filter_empty_conv)
  have none_neg: "filter (\<lambda>e. sint (Amount e) < 0) ?es = []"
    if "\<forall>e \<in> set ?es. 0 \<le> sint (Amount e)"
    using that by (auto simp: filter_empty_conv)
  have zi: "TotalIncreases t = 0" if "\<forall>e \<in> set ?es. sint (Amount e) \<le> 0"
    using none_pos [OF that] by (simp add: i exact_increases_def)
  have zd: "TotalDecreases t = 0" if "\<forall>e \<in> set ?es. 0 \<le> sint (Amount e)"
    using none_neg [OF that] by (simp add: d exact_decreases_def)
  from i d si sd zi zd show ?thesis
    by (intro conjI impI) simp_all
qed

text \<open>
  The entries \<open>-100, 100, 100\<close> give 200 and -100; two debits give no increase, two
  credits no decrease, and the empty transaction gives 0 for both.
\<close>

lemma totals_in_range_examples:
  "sint (TotalIncreases (AddEntries (NewTransaction 0) [debit, credit, plus_entry])) = 200
   \<and> sint (TotalDecreases (AddEntries (NewTransaction 0) [debit, credit, plus_entry])) = - 100
   \<and> TotalIncreases (AddEntries (NewTransaction 0) [debit, debit]) = 0
   \<and> TotalDecreases (AddEntries (NewTransaction 0) [credit, plus_entry]) = 0
   \<and> TotalIncreases (NewTransaction 0) = 0
   \<and> TotalDecreases (NewTransaction 0) = 0"
proof -
  let ?t = "AddEntries (NewTransaction 0) [debit, credit, plus_entry]"
  let ?n = "AddEntries (NewTransaction 0) [debit, debit]"
  let ?p = "AddEntries (NewTransaction 0) [credit, plus_entry]"
  let ?e = "NewTransaction 0"
  have hi: "exact_increases (Entries ?t) < 2 ^ 63"
    by (simp add: example_defs exact_increases_def)
  have hd: "- (2 ^ 63) \<le> exact_decreases (Entries ?t)"
    by (simp add: example_defs exact_decreases_def)
  have vi: "exact_increases (Entries ?t) = 200"
    by (simp add: example_defs exact_increases_def)
  have vd: "exact_decreases (Entries ?t) = - 100"
    by (simp add: example_defs exact_decreases_def)
  have hn: "\<forall>e \<in> set (Entries ?n). sint (Amount e) \<le> 0"
    by (simp add: example_defs)
  have hp: "\<forall>e \<in> set (Entries ?p). 0 \<le> sint (Amount e)"
    by (simp add: example_defs)
  have he: "\<forall>e \<in> set (Entries ?e). sint (Amount e) \<le> 0"
    by (simp add: example_defs)
  have he': "\<forall>e \<in> set (Entries ?e). 0 \<le> sint (Amount e)"
    by (simp add: example_defs)
  note ci = totals_in_range [of ?t, THEN conjunct2, THEN conjunct2, THEN conjunct1, THEN mp,
      OF hi, THEN conjunct1]
  note cd = totals_in_range [of ?t, THEN conjunct2, THEN conjunct2, THEN conjunct2,
      THEN conjunct1, THEN mp, OF hd, THEN conjunct1]
  note cn = totals_in_range [of ?n, THEN conjunct2, THEN conjunct2, THEN conjunct2,
      THEN conjunct2, THEN conjunct1, THEN mp, OF hn]
  note cp = totals_in_range [of ?p, THEN conjunct2, THEN conjunct2, THEN conjunct2,
      THEN conjunct2, THEN conjunct2, THEN mp, OF hp]
  note ce = totals_in_range [of ?e, THEN conjunct2, THEN conjunct2, THEN conjunct2,
      THEN conjunct2, THEN conjunct1, THEN mp, OF he]
  note ce' = totals_in_range [of ?e, THEN conjunct2, THEN conjunct2, THEN conjunct2,
      THEN conjunct2, THEN conjunct2, THEN mp, OF he']
  from ci cd cn cp ce ce' vi vd show ?thesis
    by simp
qed

text \<open>
  C5. \<open>TotalIncreases\<close> is to be the sum of only the strictly positive entry
  amounts, and so never below 0; \<open>TotalDecreases\<close> the sum of only the strictly
  negative ones, and so never above 0. The comments of the code say as much ("returns
  the total amount of all the increases", "of all the decreases"; a positive amount
  is an increase). The code does not keep to it when a total overflows: for the
  strictly positive amounts \<open>9223372036854775807\<close> and \<open>1\<close>, \<open>TotalIncreases\<close>
  returns \<open>-9223372036854775808\<close>, and for the strictly negative amounts
  \<open>-9223372036854775808\<close> and \<open>-1\<close>, \<open>TotalDecreases\<close> returns
  \<open>9223372036854775807\<close>.
\<close>

theorem totals_signs_failing_input:
  "map (\<lambda>e. sint (Amount e)) (Entries max_int_and_one) = [9223372036854775807, 1]
   \<and> sint (TotalIncreases max_int_and_one) = - 9223372036854775808
   \<and> sint (TotalIncreases max_int_and_one) < 0
   \<and> map (\<lambda>e. sint (Amount e)) (Entries min_int_and_minus_one)
       = [- 9223372036854775808, - 1]
   \<and> sint (TotalDecreases min_int_and_minus_one) = 9223372036854775807
   \<and> 0 < sint (TotalDecreases min_int_and_minus_one)"
  by (simp add: max_int_and_one_def min_int_and_minus_one_def TotalIncreases_def
      TotalDecreases_def word_sless_alt)

section \<open>Order of the entries\<close>

lemma IsBalanced_mset:
  "IsBalanced t = (if size (mset (Entries t)) = 0 then
        (True, Some (errors_New ''transaction has no entries''))
      else if size (mset (Entries t)) = 1 then
        (False, Some (errors_New ''transaction has only one entry''))
      else if sum_mset (image_mset Amount (mset (Entries t))) \<noteq> 0 then
        (False, Some (errors_New ''transaction is unbalanced''))
      else (True, None))"
proof -
  have "sum_loop (Entries t) 0 = sum_mset (image_mset Amount (mset (Entries t)))"
    by (simp add: sum_loop_eq flip: sum_mset_sum_list)
  then show ?thesis
    by (simp add: IsBalanced_def)
qed

text \<open>
  C7. Two transactions whose entry sequences are permutations of each other (they
  hold the same entries the same number of times) get the same result from
  \<open>IsBalanced\<close>, the boolean and the error alike. The stored sequence itself keeps
  the order of insertion: \<open>AddEntry\<close> and \<open>AddEntries\<close> put the new entries after
  the earlier ones.
\<close>

theorem IsBalanced_order_irrelevant:
  "(mset (Entries t') = mset (Entries t) \<longrightarrow> IsBalanced t' = IsBalanced t)
   \<and> Entries (AddEntry t e) = Entries t @ [e]
   \<and> Entries (AddEntries t es) = Entries t @ es"
proof -
  have "IsBalanced t' = IsBalanced t" if "mset (Entries t') = mset (Entries t)"
    by (simp only: IsBalanced_mset [of t'] IsBalanced_mset [of t] that)
  then show ?thesis
    by (simp add: AddEntry_def AddEntries_def)
qed

text \<open>
  The entries of the test in two orders: the verdicts agree, the sequences differ.
\<close>

theorem IsBalanced_order_irrelevant_witness:
  "IsBalanced (AddEntries (NewTransaction 0) [plus_entry, debit, credit])
     = IsBalanced (AddEntries (NewTransaction 0) [debit, credit, plus_entry])
   \<and> IsBalanced (AddEntries (NewTransaction 0) [credit, debit])
     = IsBalanced (AddEntries (NewTransaction 0) [debit, credit])
   \<and> Entries (AddEntries (NewTransaction 0) [credit, debit])
     \<noteq> Entries (AddEntries (NewTransaction 0) [debit, credit])"
proof -
  let ?a = "AddEntries (NewTransaction 0) [plus_entry, debit, credit]"
  let ?b = "AddEntries (NewTransaction 0) [debit, credit, plus_entry]"
  let ?c = "AddEntries (NewTransaction 0) [credit, debit]"
  let ?d = "AddEntries (NewTransaction 0) [debit, credit]"
  have h1: "mset (Entries ?a) = mset (Entries ?b)"
    by (simp add: example_defs)
  have h2: "mset (Entries ?c) = mset (Entries ?d)"
    by (simp add: example_defs)
  have ne: "Entries ?c \<noteq> Entries ?d"
    by (simp add: example_defs)
  note c1 = IsBalanced_order_irrelevant [of ?a ?b, THEN conjunct1, THEN mp, OF h1]
  note c2 = IsBalanced_order_irrelevant [of ?c ?d, THEN conjunct1, THEN mp, OF h2]
  from c1 c2 ne show ?thesis
    by (intro conjI)
qed

section \<open>Repeated calls of the balance check\<close>

lemma IsBalanced_calls_eq: "IsBalanced_calls n t = (replicate n (IsBalanced t), t)"
  by (induction n) (simp_all add: IsBalanced_call_def)

lemma IsBalanced_cong: "Entries t' = Entries t \<Longrightarrow> IsBalanced t' = IsBalanced t"
  by (simp add: IsBalanced_def)

text \<open>
  C6. \<open>IsBalanced\<close> is pure: any number of calls in a row return the same pair of
  boolean and error each time and leave the transaction as it was. The result is a
  function of the entry sequence alone, and nothing is kept from an earlier call: a
  call made after an entry was added (or several) returns the verdict of the
  extended sequence.
\<close>

theorem IsBalanced_pure:
  "IsBalanced_calls n t = (replicate n (IsBalanced t), t)
   \<and> snd (IsBalanced_call t) = t
   \<and> (Entries t' = Entries t \<longrightarrow> IsBalanced t' = IsBalanced t)
   \<and> fst (IsBalanced_call (AddEntry (snd (IsBalanced_call t)) e))
       = IsBalanced (t\<lparr>Entries := Entries t @ [e]\<rparr>)
   \<and> fst (IsBalanced_call (AddEntries (snd (IsBalanced_call t)) es))
       = IsBalanced (t\<lparr>Entries := Entries t @ es\<rparr>)"
  using IsBalanced_cong [of t' t]
  by (simp add: IsBalanced_calls_eq IsBalanced_call_def AddEntry_def AddEntries_def)

text \<open>
  Three calls on a transaction with one entry; a closing and a regular transaction
  with the same (empty) entries; and the verdict "only one entry" replaced by
  "balanced" once the second entry is added.
\<close>

theorem IsBalanced_pure_witness:
  "IsBalanced_calls 3 (AddEntry (NewTransaction 0) debit)
     = ([(False, Some (errors_New ''transaction has only one entry'')),
         (False, Some (errors_New ''transaction has only one entry'')),
         (False, Some (errors_New ''transaction has only one entry''))],
        AddEntry (NewTransaction 0) debit)
   \<and> IsBalanced (NewClosingTransaction 7) = IsBalanced (NewTransaction 0)
   \<and> fst (IsBalanced_call
        (AddEntry (snd (IsBalanced_call (AddEntry (NewTransaction 0) debit))) credit))
       = (True, None)"
proof -
  let ?t = "AddEntry (NewTransaction 0) debit"
  have h: "Entries (NewClosingTransaction 7) = Entries (NewTransaction 0)"
    by (simp add: example_defs NewClosingTransaction_def)
  have v: "IsBalanced ?t = (False, Some (errors_New ''transaction has only one entry''))"
    by (simp add: example_defs IsBalanced_def)
  have v2: "IsBalanced (?t\<lparr>Entries := Entries ?t @ [credit]\<rparr>) = (True, None)"
    by (simp add: example_defs IsBalanced_def)
  have three: "replicate 3 x = [x, x, x]" for x :: "bool \<times> error option"
    by (simp add: numeral_3_eq_3)
  note c1 = IsBalanced_pure [where n = 3 and t = ?t, THEN conjunct1]
  note c2 = IsBalanced_pure [where t' = "NewClosingTransaction 7" and t = "NewTransaction 0",
      THEN conjunct2, THEN conjunct2, THEN conjunct1, THEN mp, OF h]
  note c3 = IsBalanced_pure [where t = ?t and e = credit, THEN conjunct2, THEN conjunct2,
      THEN conjunct2, THEN conjunct1]
  from c1 c2 c3 v v2 three show ?thesis
    by simp
qed

section \<open>Adding a transaction to the ledger\<close>

lemmas ledger_example_defs =
  NewLedger_def memory_storage_def empty_world_def

text \<open>
  C2. \<open>AddTransaction\<close> runs the balance check first. When the check reports
  unbalanced, it returns the error of the check and the world is unchanged: the list
  of \<open>SaveTransaction\<close> calls has no new element and the storage keeps its state.
  When the check reports balanced, it makes exactly one call of \<open>SaveTransaction\<close>,
  with the context and the transaction it was given, and returns the error (or
  \<open>nil\<close>) of that call as it is.
\<close>

theorem AddTransaction_fail_fast:
  "(\<not> fst (IsBalanced t) \<longrightarrow>
      AddTransaction l ctx t w = (snd (IsBalanced t), w))
   \<and> (fst (IsBalanced t) \<longrightarrow>
      AddTransaction l ctx t w =
        (fst (SaveTransaction (storage l) ctx t (store w)),
         \<lparr>saves = saves w @ [(ctx, t)],
          store = snd (SaveTransaction (storage l) ctx t (store w))\<rparr>))"
  by (simp add: AddTransaction_def storage_SaveTransaction_def split: prod.splits)

text \<open>
  A transaction with one entry and an unbalanced one are refused with no call
  recorded; a balanced one is stored by the storage that accepts it, and the error of
  the storage that fails is returned as it is.
\<close>

theorem AddTransaction_fail_fast_witness:
  "AddTransaction (NewLedger memory_storage) () (AddEntry (NewTransaction 0) debit) empty_world
     = (Some (errors_New ''transaction has only one entry''), empty_world)
   \<and> AddTransaction (NewLedger memory_storage) ()
        (AddEntries (NewTransaction 0) [debit, credit, plus_entry]) empty_world
     = (Some (errors_New ''transaction is unbalanced''), empty_world)
   \<and> AddTransaction (NewLedger memory_storage) ()
        (AddEntries (NewTransaction 0) [debit, credit]) empty_world
     = (None, \<lparr>saves = [((), AddEntries (NewTransaction 0) [debit, credit])],
               store = [AddEntries (NewTransaction 0) [debit, credit]]\<rparr>)
   \<and> AddTransaction (NewLedger failing_storage) ()
        (AddEntries (NewTransaction 0) [debit, credit]) empty_world
     = (Some (errors_New ''storage failure''),
        \<lparr>saves = [((), AddEntries (NewTransaction 0) [debit, credit])], store = []\<rparr>)"
proof -
  let ?one = "AddEntry (NewTransaction 0) debit"
  let ?unb = "AddEntries (NewTransaction 0) [debit, credit, plus_entry]"
  let ?bal = "AddEntries (NewTransaction 0) [debit, credit]"
  have v1: "IsBalanced ?one = (False, Some (errors_New ''transaction has only one entry''))"
    by (simp add: example_defs IsBalanced_def)
  have v2: "IsBalanced ?unb = (False, Some (errors_New ''transaction is unbalanced''))"
    by (simp add: example_defs IsBalanced_def)
  have v3: "IsBalanced ?bal = (True, None)"
    by (simp add: example_defs IsBalanced_def)
  have h1: "\<not> fst (IsBalanced ?one)" by (simp add: v1)
  have h2: "\<not> fst (IsBalanced ?unb)" by (simp add: v2)
  have h3: "fst (IsBalanced ?bal)" by (simp add: v3)
  note c1 = AddTransaction_fail_fast [where t = ?one and l = "NewLedger memory_storage"
      and ctx = "()" and w = empty_world,
      THEN conjunct1, THEN mp, OF h1]
  note c2 = AddTransaction_fail_fast [where t = ?unb and l = "NewLedger memory_storage"
      and ctx = "()" and w = empty_world,
      THEN conjunct1, THEN mp, OF h2]
  note c3 = AddTransaction_fail_fast [where t = ?bal and l = "NewLedger memory_storage"
      and ctx = "()" and w = empty_world,
      THEN conjunct2, THEN mp, OF h3]
  note c4 = AddTransaction_fail_fast [where t = ?bal and l = "NewLedger failing_storage"
      and ctx = "()" and w = empty_world,
      THEN conjunct2, THEN mp, OF h3]
  from c1 c2 c3 c4 v1 v2 show ?thesis
    by (simp add: ledger_example_defs failing_storage_def)
qed

text \<open>
  C4. For a transaction with no entries \<open>IsBalanced\<close> reports \<open>true\<close> together
  with the error "transaction has no entries", so \<open>AddTransaction\<close> does not return
  early: it calls \<open>SaveTransaction\<close> with the empty transaction and returns what
  the storage reports; the error of the check is dropped.
\<close>

theorem AddTransaction_empty_is_saved:
  "Entries t = [] \<Longrightarrow>
   IsBalanced t = (True, Some (errors_New ''transaction has no entries''))
   \<and> AddTransaction l ctx t w =
        (fst (SaveTransaction (storage l) ctx t (store w)),
         \<lparr>saves = saves w @ [(ctx, t)],
          store = snd (SaveTransaction (storage l) ctx t (store w))\<rparr>)"
  by (simp add: AddTransaction_def IsBalanced_def storage_SaveTransaction_def
      split: prod.splits)

text \<open>
  The empty transaction is stored by a storage that accepts it, with no error.
\<close>

theorem AddTransaction_empty_is_saved_witness:
  "Entries (NewTransaction 0) = []
   \<and> AddTransaction (NewLedger memory_storage) () (NewTransaction 0) empty_world
     = (None, \<lparr>saves = [((), NewTransaction 0)], store = [NewTransaction 0]\<rparr>)"
proof -
  have h: "Entries (NewTransaction 0) = []"
    by (simp add: example_defs)
  note c = AddTransaction_empty_is_saved [OF h, where l = "NewLedger memory_storage"
      and ctx = "()" and w = empty_world, THEN conjunct2]
  from c h show ?thesis
    by (simp add: ledger_example_defs)
qed

section \<open>Balance queries\<close>

text \<open>
  C8. \<open>GetCurrentAccountBalance\<close> passes the reading of the clock as the time, and
  its flag unchanged, to the internal operation that takes a time and the flag
  \<open>closed\<close>; \<open>GetAccountBalanceAt\<close> calls that operation with \<open>closed = false\<close> and
  \<open>GetAccountBalanceClosedAt\<close> with \<open>closed = true\<close>. So the three are instances of
  one operation with a flag and a cut-off time, whatever that operation computes
  (\<open>g\<close>), and in the source it is \<open>getAccountBalance\<close>.
\<close>

theorem balance_queries_delegate:
  "GetCurrentAccountBalance_via g now l ctx accountID closed = g l ctx accountID now closed
   \<and> GetAccountBalanceAt_via g l ctx accountID t = g l ctx accountID t False
   \<and> GetAccountBalanceClosedAt_via g l ctx accountID t = g l ctx accountID t True
   \<and> GetCurrentAccountBalance_via g now l ctx accountID True
       = GetAccountBalanceClosedAt_via g l ctx accountID now
   \<and> GetCurrentAccountBalance_via g now l ctx accountID False
       = GetAccountBalanceAt_via g l ctx accountID now
   \<and> GetCurrentAccountBalance now l ctx accountID closed
       = getAccountBalance l ctx accountID now closed
   \<and> GetAccountBalanceAt l ctx accountID t = getAccountBalance l ctx accountID t False
   \<and> GetAccountBalanceClosedAt l ctx accountID t = getAccountBalance l ctx accountID t True"
  by (simp add: GetCurrentAccountBalance_via_def GetAccountBalanceAt_via_def
      GetAccountBalanceClosedAt_via_def GetCurrentAccountBalance_def
      GetAccountBalanceAt_def GetAccountBalanceClosedAt_def)

text \<open>
  C9. Each of the three balance queries returns, for every account, time and flag,
  the zero \<open>AccountBalance\<close> (account ID zero, account type empty, balance 0, time
  stamp zero) and no error: \<open>getAccountBalance\<close> uses none of its arguments.
\<close>

theorem balance_queries_are_stubs:
  "GetCurrentAccountBalance now l ctx accountID closed
     = (\<lparr>AccountID = 0, AccountType = [], Balance = 0, BalanceTimestamp = 0\<rparr>, None)
   \<and> GetAccountBalanceAt l ctx accountID t
     = (\<lparr>AccountID = 0, AccountType = [], Balance = 0, BalanceTimestamp = 0\<rparr>, None)
   \<and> GetAccountBalanceClosedAt l ctx accountID t
     = (\<lparr>AccountID = 0, AccountType = [], Balance = 0, BalanceTimestamp = 0\<rparr>, None)
   \<and> getAccountBalance l ctx accountID t closed
     = (\<lparr>AccountID = 0, AccountType = [], Balance = 0, BalanceTimestamp = 0\<rparr>, None)"
  by (simp add: GetCurrentAccountBalance_via_def GetAccountBalanceAt_via_def
      GetAccountBalanceClosedAt_via_def GetCurrentAccountBalance_def
      GetAccountBalanceAt_def GetAccountBalanceClosedAt_def getAccountBalance_def
      zero_AccountBalance_def)

end
